theory Spec2Isabelle
  imports Main "HOL-Library.AList"
begin

section \<open>Values, documents and errors\<close>

text \<open>
  Python values that the handlers of \<^verbatim>\<open>main.py\<close> read and write: \<^verbatim>\<open>None\<close>, booleans,
  strings, lists of strings (\<^verbatim>\<open>tags\<close>, \<^verbatim>\<open>collections\<close>), timestamps and the identifiers the
  store assigns. A \<^verbatim>\<open>str\<close> is a \<open>string\<close> holding the bytes of its UTF-8 encoding, with a
  surrogate code point (which a JSON escape for \<open>U+D800\<close> puts into a \<^verbatim>\<open>str\<close>) as the
  three bytes \<open>0xED\<close>, \<open>0xA0\<close> to \<open>0xBF\<close>, \<open>0x80\<close> to \<open>0xBF\<close> that it would have; slicing
  counts bytes, which are the characters of an ASCII text. A \<^verbatim>\<open>dict\<close> is an association
  list with \<open>map_of\<close> as lookup, so \<^verbatim>\<open>d.get(k)\<close> is \<open>dict_get d k\<close>.
\<close>

type_synonym datetime = nat

datatype val =
    VNull
  | VBool bool
  | VStr string
  | VStrs "string list"
  | VDatetime datetime
  | VObjectId string

type_synonym dict = "(string \<times> val) list"

definition dict_get :: "dict \<Rightarrow> string \<Rightarrow> val" where
  "dict_get d k = (case map_of d k of None \<Rightarrow> VNull | Some v \<Rightarrow> v)"

definition dict_get_default :: "dict \<Rightarrow> string \<Rightarrow> val \<Rightarrow> val" where
  "dict_get_default d k dflt = (case map_of d k of None \<Rightarrow> dflt | Some v \<Rightarrow> v)"

text \<open>
  Everything a handler can raise: \<^verbatim>\<open>HTTPException(status_code, detail)\<close>, the framework's
  rejection of a request body (status 422, one entry per offending field), a pydantic
  \<^verbatim>\<open>ValidationError\<close> raised while a model is built inside a handler, the
  \<^verbatim>\<open>UnicodeEncodeError\<close> of \<^verbatim>\<open>str.encode\<close>, and any other \<^verbatim>\<open>Exception\<close> with its text.
\<close>

datatype error =
    HTTPException nat string
  | RequestValidationError "(string \<times> string) list"
  | ValidationError string
  | UnicodeEncodeError
  | Exception string

section \<open>Schemas (schemas.py)\<close>

record User =
  name :: string
  email :: string
  password_hash :: string
  avatar_url :: "string option"
  is_active :: bool

record BlogPost =
  title :: string
  slug :: string
  summary :: "string option"
  content :: string
  author :: string
  tags :: "string list"
  published :: bool
  published_at :: "datetime option"

record ContactMessage =
  name :: string
  email :: string
  subject :: "string option"
  message :: string

text \<open>
  \<^verbatim>\<open>BlogPost(...)\<close> with its keyword arguments: \<^verbatim>\<open>tags\<close> and \<^verbatim>\<open>published\<close> may be omitted
  (\<open>None\<close> here), and then take \<^verbatim>\<open>default_factory=list\<close> and \<^verbatim>\<open>default=True\<close>.
\<close>

definition BlogPostSchema ::
  "string \<Rightarrow> string \<Rightarrow> string option \<Rightarrow> string \<Rightarrow> string \<Rightarrow> string list option \<Rightarrow> bool option
     \<Rightarrow> datetime option \<Rightarrow> BlogPost" where
  "BlogPostSchema title' slug' summary' content' author' tags' published' published_at' =
     \<lparr>title = title', slug = slug', summary = summary', content = content', author = author',
      tags = (case tags' of None \<Rightarrow> [] | Some ts \<Rightarrow> ts),
      published = (case published' of None \<Rightarrow> True | Some b \<Rightarrow> b),
      published_at = published_at'\<rparr>"

datatype model = MUser User | MBlogPost BlogPost | MContactMessage ContactMessage

definition opt_str :: "string option \<Rightarrow> val" where
  "opt_str s = (case s of None \<Rightarrow> VNull | Some x \<Rightarrow> VStr x)"

definition opt_datetime :: "datetime option \<Rightarrow> val" where
  "opt_datetime t = (case t of None \<Rightarrow> VNull | Some x \<Rightarrow> VDatetime x)"

fun model_dump :: "model \<Rightarrow> dict" where
  "model_dump (MUser u) =
     [(''name'', VStr (User.name u)), (''email'', VStr (User.email u)),
      (''password_hash'', VStr (password_hash u)), (''avatar_url'', opt_str (avatar_url u)),
      (''is_active'', VBool (is_active u))]"
| "model_dump (MBlogPost b) =
     [(''title'', VStr (title b)), (''slug'', VStr (slug b)), (''summary'', opt_str (summary b)),
      (''content'', VStr (content b)), (''author'', VStr (author b)), (''tags'', VStrs (tags b)),
      (''published'', VBool (published b)), (''published_at'', opt_datetime (published_at b))]"
| "model_dump (MContactMessage m) =
     [(''name'', VStr (ContactMessage.name m)), (''email'', VStr (ContactMessage.email m)),
      (''subject'', opt_str (subject m)), (''message'', VStr (message m))]"

section \<open>The persistence adapter (module database)\<close>

text \<open>
  \<^verbatim>\<open>main.py\<close> imports \<^verbatim>\<open>create_document\<close>, \<^verbatim>\<open>get_documents\<close> and \<^verbatim>\<open>db\<close> from a module
  that is not among the sources. The handle \<^verbatim>\<open>db\<close> is \<^verbatim>\<open>None\<close> or a database object;
  the object has the attribute \<^verbatim>\<open>name\<close> that \<^verbatim>\<open>test_database\<close> probes with
  \<^verbatim>\<open>hasattr\<close>, may be unreachable (then every call of the driver raises, with the text
  in \<open>failure\<close>), and holds the collections in store order and the counter from which the
  next identifier is made.
\<close>

datatype attr = AttrMissing | AttrValue string | AttrRaises string

record database =
  name :: attr
  failure :: "string option"
  colls :: "(string \<times> dict list) list"
  next_id :: nat

definition collection :: "database \<Rightarrow> string \<Rightarrow> dict list" where
  "collection d c = (case map_of (colls d) c of None \<Rightarrow> [] | Some ds \<Rightarrow> ds)"

fun digits :: "nat \<Rightarrow> string" where
  "digits n =
     (if n < 10 then [char_of (48 + n)] else digits (n div 10) @ [char_of (48 + n mod 10)])"

declare digits.simps [simp del]

definition matches :: "dict \<Rightarrow> dict \<Rightarrow> bool" where
  "matches filter_dict doc = list_all (\<lambda>(k, v). map_of doc k = Some v) filter_dict"

definition get_documents ::
  "database option \<Rightarrow> string \<Rightarrow> dict \<Rightarrow> nat option \<Rightarrow> error + dict list" where
  \<comment> \<open>Modelled from the spec: \<^verbatim>\<open>get_documents\<close> of the module \<^verbatim>\<open>database\<close> is missing.
     The spec's \<^verbatim>\<open>find(collection, filter, limit?)\<close>: the documents of the collection
     whose fields equal the filter's, in store order, at most \<^verbatim>\<open>limit\<close> of them (all
     when the limit is omitted), the empty sequence when nothing matches; an adapter that
     is not initialized or a store that is unreachable propagates as an error.\<close>
  "get_documents db collection_name filter_dict limit =
     (case db of
        None \<Rightarrow> Inl (Exception ''Database not available'')
      | Some d \<Rightarrow>
          (case failure d of
             Some msg \<Rightarrow> Inl (Exception msg)
           | None \<Rightarrow>
               (let found = filter (matches filter_dict) (collection d collection_name)
                in Inr (case limit of None \<Rightarrow> found | Some n \<Rightarrow> take n found))))"

definition create_document ::
  "database option \<Rightarrow> string \<Rightarrow> model \<Rightarrow> (error + string) \<times> database option" where
  \<comment> \<open>Modelled from the spec: \<^verbatim>\<open>create_document\<close> of the module \<^verbatim>\<open>database\<close> is missing.
     The spec's \<^verbatim>\<open>insert(collection, document) -> id\<close>: the validated record is
     serialized and stored, the store assigns the new document an opaque, non-empty
     identifier (here the decimal text of a counter) and returns it; the only failure is
     an adapter that is not initialized or a store that is unreachable.\<close>
  "create_document db collection_name data =
     (case db of
        None \<Rightarrow> (Inl (Exception ''Database not available''), db)
      | Some d \<Rightarrow>
          (case failure d of
             Some msg \<Rightarrow> (Inl (Exception msg), db)
           | None \<Rightarrow>
               (let inserted_id = digits (next_id d);
                    doc = (''_id'', VObjectId inserted_id) # model_dump data
                in (Inr inserted_id,
                    Some (d\<lparr>colls := AList.update collection_name
                                       (collection d collection_name @ [doc]) (colls d),
                            next_id := Suc (next_id d)\<rparr>)))))"


section \<open>Request models and handlers (main.py)\<close>

text \<open>
  \<^verbatim>\<open>password.encode("utf-8")\<close> raises \<^verbatim>\<open>UnicodeEncodeError\<close> when the text holds a surrogate
  code point, and returns its bytes otherwise. In well-formed text the byte \<open>0xED\<close> only
  starts the code points \<open>U+D000\<close> to \<open>U+DFFF\<close>, and the next byte is \<open>0xA0\<close> or more
  exactly for the surrogates.
\<close>

fun has_surrogate :: "string \<Rightarrow> bool" where
  "has_surrogate (a # b # cs) =
     ((a = CHR 0xED \<and> (0xA0 :: nat) \<le> of_char b \<and> of_char b \<le> (0xBF :: nat)) \<or>
      has_surrogate (b # cs))"
| "has_surrogate _ = False"

definition encode_utf8 :: "string \<Rightarrow> error + string" where
  "encode_utf8 s = (if has_surrogate s then Inl UnicodeEncodeError else Inr s)"

text \<open>
  \<^verbatim>\<open>hashlib.sha256(...).hexdigest()\<close> is the standard library's; the handlers take it as
  the parameter \<open>sha256_hexdigest\<close>, a function from the encoded password to the text of
  its digest.
\<close>

definition hash_password :: "(string \<Rightarrow> string) \<Rightarrow> string \<Rightarrow> error + string" where
  "hash_password sha256_hexdigest password =
     (case encode_utf8 password of
        Inl e \<Rightarrow> Inl e
      | Inr bytes \<Rightarrow> Inr (sha256_hexdigest bytes))"

record RegisterRequest =
  name :: string
  email :: string
  password :: string

record LoginRequest =
  email :: string
  password :: string

definition register ::
  "(string \<Rightarrow> string) \<Rightarrow> database option \<Rightarrow> RegisterRequest \<Rightarrow> (error + dict) \<times> database option" where
  "register sha256_hexdigest db payload =
     (case get_documents db ''user'' [(''email'', VStr (RegisterRequest.email payload))] (Some 1) of
        Inl e \<Rightarrow> (Inl e, db)
      | Inr existing \<Rightarrow>
          if existing \<noteq> [] then (Inl (HTTPException 400 ''Email already registered''), db)
          else
            (case hash_password sha256_hexdigest (RegisterRequest.password payload) of
               Inl e \<Rightarrow> (Inl e, db)
             | Inr hashed \<Rightarrow>
                 (let user_doc = \<lparr>User.name = RegisterRequest.name payload,
                                  User.email = RegisterRequest.email payload,
                                  password_hash = hashed,
                                  avatar_url = None,
                                  is_active = True\<rparr>
                  in case create_document db ''user'' (MUser user_doc) of
                       (Inl e, db') \<Rightarrow> (Inl e, db')
                     | (Inr user_id, db') \<Rightarrow>
                         (Inr [(''ok'', VBool True), (''user_id'', VStr user_id)], db'))))"

definition login ::
  "(string \<Rightarrow> string) \<Rightarrow> database option \<Rightarrow> LoginRequest \<Rightarrow> (error + dict) \<times> database option" where
  "login sha256_hexdigest db payload =
     (case get_documents db ''user'' [(''email'', VStr (LoginRequest.email payload))] (Some 1) of
        Inl e \<Rightarrow> (Inl e, db)
      | Inr users \<Rightarrow>
          (case users of
             [] \<Rightarrow> (Inl (HTTPException 401 ''Invalid credentials''), db)
           | user # _ \<Rightarrow>
               (case hash_password sha256_hexdigest (LoginRequest.password payload) of
                  Inl e \<Rightarrow> (Inl e, db)
                | Inr hashed \<Rightarrow>
                    if dict_get user ''password_hash'' \<noteq> VStr hashed
                    then (Inl (HTTPException 401 ''Invalid credentials''), db)
                    else (Inr [(''ok'', VBool True), (''name'', dict_get user ''name''),
                               (''email'', dict_get user ''email'')], db))))"

subsection \<open>Blog listing\<close>

record BlogOut =
  title :: string
  slug :: string
  summary :: "string option"
  content :: string
  author :: string
  tags :: "string list"
  published :: bool
  published_at :: "datetime option"

text \<open>
  Building a \<^verbatim>\<open>BlogOut\<close> validates each argument against the declared type of its field:
  a value of another type raises pydantic's \<^verbatim>\<open>ValidationError\<close>, reported here with the
  first field that fails. For \<^verbatim>\<open>published_at\<close> pydantic also converts values that are
  not datetimes, such as an ISO 8601 string: the parameter \<open>parse_datetime\<close> is that
  conversion, \<open>None\<close> where it refuses the value.
\<close>

definition as_str :: "val \<Rightarrow> string option" where
  "as_str v = (case v of VStr s \<Rightarrow> Some s | _ \<Rightarrow> None)"

definition as_opt_str :: "val \<Rightarrow> string option option" where
  "as_opt_str v = (case v of VNull \<Rightarrow> Some None | VStr s \<Rightarrow> Some (Some s) | _ \<Rightarrow> None)"

definition as_strs :: "val \<Rightarrow> string list option" where
  "as_strs v = (case v of VStrs xs \<Rightarrow> Some xs | _ \<Rightarrow> None)"

definition as_bool :: "val \<Rightarrow> bool option" where
  "as_bool v = (case v of VBool b \<Rightarrow> Some b | _ \<Rightarrow> None)"

definition as_opt_datetime :: "(val \<Rightarrow> datetime option) \<Rightarrow> val \<Rightarrow> datetime option option" where
  "as_opt_datetime parse_datetime v =
     (case v of
        VNull \<Rightarrow> Some None
      | VDatetime t \<Rightarrow> Some (Some t)
      | _ \<Rightarrow> (case parse_datetime v of None \<Rightarrow> None | Some t \<Rightarrow> Some (Some t)))"

definition BlogOut_init ::
  "(val \<Rightarrow> datetime option) \<Rightarrow> val \<Rightarrow> val \<Rightarrow> val \<Rightarrow> val \<Rightarrow> val \<Rightarrow> val \<Rightarrow> val \<Rightarrow> val
     \<Rightarrow> error + BlogOut" where
  "BlogOut_init parse_datetime title' slug' summary' content' author' tags' published' published_at' =
     (case as_str title' of None \<Rightarrow> Inl (ValidationError ''title'') | Some t \<Rightarrow>
     (case as_str slug' of None \<Rightarrow> Inl (ValidationError ''slug'') | Some s \<Rightarrow>
     (case as_opt_str summary' of None \<Rightarrow> Inl (ValidationError ''summary'') | Some su \<Rightarrow>
     (case as_str content' of None \<Rightarrow> Inl (ValidationError ''content'') | Some c \<Rightarrow>
     (case as_str author' of None \<Rightarrow> Inl (ValidationError ''author'') | Some a \<Rightarrow>
     (case as_strs tags' of None \<Rightarrow> Inl (ValidationError ''tags'') | Some ts \<Rightarrow>
     (case as_bool published' of None \<Rightarrow> Inl (ValidationError ''published'') | Some p \<Rightarrow>
     (case as_opt_datetime parse_datetime published_at' of None \<Rightarrow> Inl (ValidationError ''published_at'') | Some pa \<Rightarrow>
        Inr \<lparr>BlogOut.title = t, slug = s, summary = su, content = c, author = a, tags = ts,
             published = p, published_at = pa\<rparr>))))))))"

definition blog_out :: "(val \<Rightarrow> datetime option) \<Rightarrow> dict \<Rightarrow> error + BlogOut" where
  \<comment> \<open>the body of the loop over \<^verbatim>\<open>posts\<close>\<close>
  "blog_out parse_datetime p =
     BlogOut_init parse_datetime (dict_get p ''title'') (dict_get p ''slug'') (dict_get p ''summary'')
       (dict_get p ''content'') (dict_get p ''author'') (dict_get_default p ''tags'' (VStrs []))
       (dict_get_default p ''published'' (VBool True)) (dict_get p ''published_at'')"

fun map_blogs :: "(val \<Rightarrow> datetime option) \<Rightarrow> dict list \<Rightarrow> error + BlogOut list" where
  "map_blogs parse_datetime [] = Inr []"
| "map_blogs parse_datetime (p # ps) =
     (case blog_out parse_datetime p of
        Inl e \<Rightarrow> Inl e
      | Inr b \<Rightarrow>
          (case map_blogs parse_datetime ps of
             Inl e \<Rightarrow> Inl e
           | Inr result \<Rightarrow> Inr (b # result)))"

definition examples :: "datetime \<Rightarrow> datetime \<Rightarrow> BlogPost list" where
  \<comment> \<open>the two arguments are what the two calls of \<^verbatim>\<open>datetime.utcnow()\<close> return\<close>
  "examples now1 now2 =
     [BlogPostSchema ''Launching our pastel fintech platform'' ''launching-pastel-fintech''
        (Some ''A soft, modern take on digital banking.'')
        ''We are excited to introduce a gentle, human fintech experience...''
        ''Team'' (Some [''announcement'', ''fintech'']) (Some True) (Some now1),
      BlogPostSchema ''How we price simply and fairly'' ''simple-fair-pricing''
        (Some ''Transparent plans that scale with you.'')
        ''No hidden fees. Just clear tiers designed for growth...''
        ''Team'' (Some [''pricing'', ''product'']) (Some True) (Some now2)]"

fun create_all :: "database option \<Rightarrow> BlogPost list \<Rightarrow> error option \<times> database option" where
  \<comment> \<open>\<^verbatim>\<open>for ex in examples: create_document("blogpost", ex)\<close>\<close>
  "create_all db [] = (None, db)"
| "create_all db (ex # exs) =
     (case create_document db ''blogpost'' (MBlogPost ex) of
        (Inl e, db') \<Rightarrow> (Some e, db')
      | (Inr _, db') \<Rightarrow> create_all db' exs)"

definition list_blogs ::
  "(val \<Rightarrow> datetime option) \<Rightarrow> database option \<Rightarrow> datetime \<Rightarrow> datetime
     \<Rightarrow> (error + BlogOut list) \<times> database option" where
  "list_blogs parse_datetime db now1 now2 =
     (case get_documents db ''blogpost'' [(''published'', VBool True)] None of
        Inl e \<Rightarrow> (Inl e, db)
      | Inr posts \<Rightarrow>
          if posts = [] then
            (case create_all db (examples now1 now2) of
               (Some e, db') \<Rightarrow> (Inl e, db')
             | (None, db') \<Rightarrow>
                 (case get_documents db' ''blogpost'' [(''published'', VBool True)] None of
                    Inl e \<Rightarrow> (Inl e, db')
                  | Inr posts' \<Rightarrow> (map_blogs parse_datetime posts', db')))
          else (map_blogs parse_datetime posts, db))"

subsection \<open>Contact\<close>

record ContactRequest =
  name :: string
  email :: string
  subject :: "string option"
  message :: string

definition contact :: "database option \<Rightarrow> ContactRequest \<Rightarrow> (error + dict) \<times> database option" where
  "contact db payload =
     (let msg = \<lparr>ContactMessage.name = ContactRequest.name payload,
                 email = ContactRequest.email payload,
                 subject = ContactRequest.subject payload,
                 message = ContactRequest.message payload\<rparr>
      in case create_document db ''contactmessage'' (MContactMessage msg) of
           (Inl e, db') \<Rightarrow> (Inl e, db')
         | (Inr doc_id, db') \<Rightarrow>
             (Inr [(''ok'', VBool True),
                   (''message'', VStr (''Thanks for reaching out! We'' @ [CHR 0x27] @ ''ll get back to you soon.'')),
                   (''id'', VStr doc_id)], db'))"

subsection \<open>Diagnostics\<close>







subsection \<open>Request bodies\<close>

text \<open>
  A handler whose parameter is annotated with a request model receives the parsed model:
  the framework validates the JSON body against the model's fields first and answers a
  body that fails with status 422 without calling the handler. \<^verbatim>\<open>EmailStr\<close> checks the
  address with the email-validator library, the parameter \<open>validate_email\<close> (the accepted,
  normalised address, or \<open>None\<close>).
\<close>

datatype json = JNull | JBool bool | JNum int | JStr string | JCompound

type_synonym body = "(string \<times> json) list"

definition str_field :: "body \<Rightarrow> string \<Rightarrow> string + string" where
  "str_field b k =
     (case map_of b k of
        None \<Rightarrow> Inl ''missing''
      | Some (JStr s) \<Rightarrow> Inr s
      | Some _ \<Rightarrow> Inl ''string_type'')"

definition email_field :: "(string \<Rightarrow> string option) \<Rightarrow> body \<Rightarrow> string \<Rightarrow> string + string" where
  "email_field validate_email b k =
     (case map_of b k of
        None \<Rightarrow> Inl ''missing''
      | Some (JStr s) \<Rightarrow> (case validate_email s of None \<Rightarrow> Inl ''value_error'' | Some e \<Rightarrow> Inr e)
      | Some _ \<Rightarrow> Inl ''string_type'')"

definition opt_str_field :: "body \<Rightarrow> string \<Rightarrow> string + string option" where
  "opt_str_field b k =
     (case map_of b k of
        None \<Rightarrow> Inr None
      | Some JNull \<Rightarrow> Inr None
      | Some (JStr s) \<Rightarrow> Inr (Some s)
      | Some _ \<Rightarrow> Inl ''string_type'')"

definition field_error :: "string \<Rightarrow> string + 'a \<Rightarrow> (string \<times> string) list" where
  "field_error k r = (case r of Inl t \<Rightarrow> [(k, t)] | Inr _ \<Rightarrow> [])"

definition parse_RegisterRequest ::
  "(string \<Rightarrow> string option) \<Rightarrow> body \<Rightarrow> error + RegisterRequest" where
  "parse_RegisterRequest validate_email b =
     (let n = str_field b ''name''; e = email_field validate_email b ''email'';
          p = str_field b ''password''
      in case (n, e, p) of
           (Inr n', Inr e', Inr p') \<Rightarrow> Inr \<lparr>RegisterRequest.name = n', email = e', password = p'\<rparr>
         | _ \<Rightarrow> Inl (RequestValidationError
                      (field_error ''name'' n @ field_error ''email'' e @ field_error ''password'' p)))"

definition parse_LoginRequest ::
  "(string \<Rightarrow> string option) \<Rightarrow> body \<Rightarrow> error + LoginRequest" where
  "parse_LoginRequest validate_email b =
     (let e = email_field validate_email b ''email''; p = str_field b ''password''
      in case (e, p) of
           (Inr e', Inr p') \<Rightarrow> Inr \<lparr>LoginRequest.email = e', password = p'\<rparr>
         | _ \<Rightarrow> Inl (RequestValidationError (field_error ''email'' e @ field_error ''password'' p)))"

definition parse_ContactRequest ::
  "(string \<Rightarrow> string option) \<Rightarrow> body \<Rightarrow> error + ContactRequest" where
  "parse_ContactRequest validate_email b =
     (let n = str_field b ''name''; e = email_field validate_email b ''email'';
          s = opt_str_field b ''subject''; m = str_field b ''message''
      in case (n, e, s, m) of
           (Inr n', Inr e', Inr s', Inr m') \<Rightarrow>
             Inr \<lparr>ContactRequest.name = n', email = e', subject = s', message = m'\<rparr>
         | _ \<Rightarrow> Inl (RequestValidationError
                      (field_error ''name'' n @ field_error ''email'' e @
                       field_error ''subject'' s @ field_error ''message'' m)))"

definition post_register ::
  "(string \<Rightarrow> string option) \<Rightarrow> (string \<Rightarrow> string) \<Rightarrow> database option \<Rightarrow> body
     \<Rightarrow> (error + dict) \<times> database option" where
  "post_register validate_email sha256_hexdigest db b =
     (case parse_RegisterRequest validate_email b of
        Inl e \<Rightarrow> (Inl e, db)
      | Inr payload \<Rightarrow> register sha256_hexdigest db payload)"

definition post_login ::
  "(string \<Rightarrow> string option) \<Rightarrow> (string \<Rightarrow> string) \<Rightarrow> database option \<Rightarrow> body
     \<Rightarrow> (error + dict) \<times> database option" where
  "post_login validate_email sha256_hexdigest db b =
     (case parse_LoginRequest validate_email b of
        Inl e \<Rightarrow> (Inl e, db)
      | Inr payload \<Rightarrow> login sha256_hexdigest db payload)"

definition post_contact ::
  "(string \<Rightarrow> string option) \<Rightarrow> database option \<Rightarrow> body \<Rightarrow> (error + dict) \<times> database option" where
  "post_contact validate_email db b =
     (case parse_ContactRequest validate_email b of
        Inl e \<Rightarrow> (Inl e, db)
      | Inr payload \<Rightarrow> contact db payload)"

section \<open>Sample inputs\<close>

definition sample_digest :: "string \<Rightarrow> string" where
  "sample_digest s = rev s"

definition sample_validate_email :: "string \<Rightarrow> string option" where
  "sample_validate_email s = (if CHR ''@'' \<in> set s then Some s else None)"

definition sample_parse_datetime :: "val \<Rightarrow> datetime option" where
  "sample_parse_datetime v = (if v = VStr ''1970-01-01T00:00:00'' then Some 0 else None)"


definition empty_db :: database where
  "empty_db = \<lparr>database.name = AttrValue ''landing'', failure = None, colls = [], next_id = 0\<rparr>"

definition ada_doc :: dict where
  "ada_doc =
     [(''_id'', VObjectId ''0''), (''name'', VStr ''Ada''), (''email'', VStr ''ada@x.com''),
      (''password_hash'', VStr ''terces''), (''avatar_url'', VNull), (''is_active'', VBool True)]"

definition ada_db :: database where
  "ada_db =
     \<lparr>database.name = AttrValue ''landing'', failure = None, colls = [(''user'', [ada_doc])],
      next_id = 1\<rparr>"

definition draft_doc :: dict where
  "draft_doc =
     [(''_id'', VObjectId ''0''), (''title'', VStr ''Roadmap''), (''slug'', VStr ''roadmap''),
      (''summary'', VNull), (''content'', VStr ''Not ready yet.''), (''author'', VStr ''Team''),
      (''tags'', VStrs []), (''published'', VBool False), (''published_at'', VNull)]"

definition draft_db :: database where
  "draft_db =
     \<lparr>database.name = AttrValue ''landing'', failure = None, colls = [(''blogpost'', [draft_doc])],
      next_id = 1\<rparr>"

definition live_doc :: dict where
  "live_doc =
     [(''_id'', VObjectId ''0''), (''title'', VStr ''Hello''), (''slug'', VStr ''hello''),
      (''content'', VStr ''First post.''), (''author'', VStr ''Team''), (''published'', VBool True)]"

definition live_db :: database where
  "live_db =
     \<lparr>database.name = AttrValue ''landing'', failure = None, colls = [(''blogpost'', [live_doc])],
      next_id = 1\<rparr>"





definition hello_body :: body where
  "hello_body = [(''name'', JStr ''Ada''), (''email'', JStr ''ada@x.com''), (''message'', JStr ''Hi'')]"

definition bad_body :: body where
  "bad_body = [(''name'', JStr ''Ada''), (''email'', JStr ''nobody''), (''password'', JStr ''secret'')]"

section \<open>Auxiliary notions\<close>

text \<open>The document that the store holds for a model inserted when the counter is \<open>n\<close>.\<close>

definition stored :: "nat \<Rightarrow> model \<Rightarrow> dict" where
  "stored n m = (''_id'', VObjectId (digits n)) # model_dump m"

text \<open>The response object with the fields of a blog post.\<close>

definition blog_view :: "BlogPost \<Rightarrow> BlogOut" where
  "blog_view b =
     \<lparr>BlogOut.title = BlogPost.title b, slug = BlogPost.slug b, summary = BlogPost.summary b,
      content = BlogPost.content b, author = BlogPost.author b, tags = BlogPost.tags b,
      published = BlogPost.published b, published_at = BlogPost.published_at b\<rparr>"

definition is_published :: "dict \<Rightarrow> bool" where
  "is_published p = matches [(''published'', VBool True)] p"

text \<open>The number of documents of a collection, \<open>0\<close> without a database.\<close>

definition count_docs :: "database option \<Rightarrow> string \<Rightarrow> nat" where
  "count_docs db c = (case db of None \<Rightarrow> 0 | Some d \<Rightarrow> length (collection d c))"

section \<open>Facts about the adapter\<close>

lemma digits_nonempty: "digits n \<noteq> []"
  by (subst digits.simps) simp

lemma get_documents_connected:
  "failure d = None \<Longrightarrow>
   get_documents (Some d) c f limit =
     Inr (case limit of None \<Rightarrow> filter (matches f) (collection d c)
          | Some n \<Rightarrow> take n (filter (matches f) (collection d c)))"
  by (simp add: get_documents_def Let_def)

lemma create_document_connected:
  "failure d = None \<Longrightarrow>
   create_document (Some d) c m =
     (Inr (digits (next_id d)),
      Some (d\<lparr>colls := AList.update c (collection d c @ [(''_id'', VObjectId (digits (next_id d))) # model_dump m])
                         (colls d),
              next_id := Suc (next_id d)\<rparr>))"
  by (simp add: create_document_def Let_def)

lemma collection_after_insert:
  "collection (d\<lparr>colls := AList.update c docs (colls d), next_id := n\<rparr>) c' =
     (if c' = c then docs else collection d c')"
  by (simp add: collection_def update_conv')


section \<open>Registration\<close>

lemma hash_password_encodable: "\<not> has_surrogate P \<Longrightarrow> hash_password H P = Inr (H P)"
  by (simp add: hash_password_def encode_utf8_def)



lemma register_connected:
  assumes "failure d = None"
  shows "register H (Some d) p =
    (if (\<exists>u\<in>set (collection d ''user''). map_of u ''email'' = Some (VStr (RegisterRequest.email p)))
     then (Inl (HTTPException 400 ''Email already registered''), Some d)
     else
       (case hash_password H (RegisterRequest.password p) of
          Inl e \<Rightarrow> (Inl e, Some d)
        | Inr hashed \<Rightarrow>
            (Inr [(''ok'', VBool True), (''user_id'', VStr (digits (next_id d)))],
             Some (d\<lparr>colls := AList.update ''user''
                     (collection d ''user'' @
                       [(''_id'', VObjectId (digits (next_id d))) #
                         model_dump (MUser \<lparr>User.name = RegisterRequest.name p,
                               User.email = RegisterRequest.email p,
                               password_hash = hashed,
                               avatar_url = None,
                               is_active = True\<rparr>)]) (colls d),
                next_id := Suc (next_id d)\<rparr>))))"
  using assms
  by (auto simp add: register_def get_documents_connected create_document_connected
      filter_empty_conv matches_def Let_def split: sum.splits)




section \<open>Login\<close>

lemma case_take1:
  "(case take (Suc 0) xs of [] \<Rightarrow> a | x # _ \<Rightarrow> f x) = (case xs of [] \<Rightarrow> a | x # _ \<Rightarrow> f x)"
  by (cases xs) simp_all

lemma login_connected:
  assumes "failure d = None"
  shows "login H (Some d) p =
    (case filter (matches [(''email'', VStr (LoginRequest.email p))]) (collection d ''user'') of
       [] \<Rightarrow> (Inl (HTTPException 401 ''Invalid credentials''), Some d)
     | user # _ \<Rightarrow>
         (case hash_password H (LoginRequest.password p) of
            Inl e \<Rightarrow> (Inl e, Some d)
          | Inr hashed \<Rightarrow>
              if dict_get user ''password_hash'' \<noteq> VStr hashed
              then (Inl (HTTPException 401 ''Invalid credentials''), Some d)
              else (Inr [(''ok'', VBool True), (''name'', dict_get user ''name''),
                         (''email'', dict_get user ''email'')], Some d)))"
  using assms by (simp add: login_def get_documents_connected case_take1)

lemma register_success_connected:
  assumes "register H db p = (Inr r, db')"
  shows "\<exists>d. db = Some d \<and> failure d = None"
proof (cases db)
  case None
  with assms show ?thesis by (simp add: register_def get_documents_def)
next
  case (Some d)
  with assms show ?thesis
    by (cases "failure d") (simp_all add: register_def get_documents_def)
qed

lemma digits_0: "digits 0 = ''0''"
  by code_simp

text \<open>
  C2. Whenever registering \<open>N\<close>, \<open>E\<close>, \<open>P\<close> succeeds, logging in with \<open>E\<close> and \<open>P\<close> on
  the resulting store answers \<^verbatim>\<open>{ok: true, name: N, email: E}\<close>: the only user document
  with that email is the one just inserted, and the digest of \<open>P\<close> is recomputed by the
  same function.
\<close>

theorem register_then_login:
  assumes "register H db \<lparr>RegisterRequest.name = N, email = E, password = P\<rparr> = (Inr r, db')"
  shows "login H db' \<lparr>LoginRequest.email = E, password = P\<rparr>
           = (Inr [(''ok'', VBool True), (''name'', VStr N), (''email'', VStr E)], db')"
proof -
  from register_success_connected [OF assms] obtain d where d: "db = Some d" "failure d = None"
    by blast
  from assms d obtain hashed where h: "hash_password H P = Inr hashed"
    by (cases "hash_password H P") (auto simp add: register_connected split: if_splits)
  let ?doc = "(''_id'', VObjectId (digits (next_id d))) #
                model_dump (MUser \<lparr>User.name = N, User.email = E, password_hash = hashed,
                                   avatar_url = None, is_active = True\<rparr>)"
  let ?d' = "d\<lparr>colls := AList.update ''user'' (collection d ''user'' @ [?doc]) (colls d),
               next_id := Suc (next_id d)\<rparr>"
  from assms d h have fresh: "\<forall>u\<in>set (collection d ''user''). map_of u ''email'' \<noteq> Some (VStr E)"
    and db': "db' = Some ?d'"
    by (auto simp add: register_connected split: if_splits)
  show ?thesis
    unfolding db' using fresh d(2) h
    by (simp add: login_connected collection_after_insert matches_def
        filter_empty_conv dict_get_def)
qed

theorem register_then_login_witness:
  "register sample_digest (Some empty_db)
     \<lparr>RegisterRequest.name = ''Ada'', email = ''ada@x.com'', password = ''secret''\<rparr>
     = (Inr [(''ok'', VBool True), (''user_id'', VStr ''0'')], Some ada_db) \<and>
   login sample_digest (Some ada_db) \<lparr>LoginRequest.email = ''ada@x.com'', password = ''secret''\<rparr>
     = (Inr [(''ok'', VBool True), (''name'', VStr ''Ada''), (''email'', VStr ''ada@x.com'')],
        Some ada_db)"
proof -
  have reg: "register sample_digest (Some empty_db)
               \<lparr>RegisterRequest.name = ''Ada'', email = ''ada@x.com'', password = ''secret''\<rparr>
               = (Inr [(''ok'', VBool True), (''user_id'', VStr ''0'')], Some ada_db)"
    by (simp add: register_connected empty_db_def ada_db_def ada_doc_def collection_def
        hash_password_encodable sample_digest_def digits_0 opt_str_def)
  from register_then_login [OF reg] reg show ?thesis
    by simp
qed




section \<open>Blog listing\<close>

lemma create_document_stored:
  "failure d = None \<Longrightarrow>
   create_document (Some d) c m =
     (Inr (digits (next_id d)),
      Some (d\<lparr>colls := AList.update c (collection d c @ [stored (next_id d) m]) (colls d),
              next_id := Suc (next_id d)\<rparr>))"
  by (simp add: create_document_def Let_def stored_def)

lemma create_all_two:
  assumes "failure d = None"
  shows "create_all (Some d) [ex1, ex2] =
    (None,
     Some (d\<lparr>colls := AList.update ''blogpost''
              (collection d ''blogpost'' @
                 [stored (next_id d) (MBlogPost ex1), stored (Suc (next_id d)) (MBlogPost ex2)])
              (colls d),
            next_id := Suc (Suc (next_id d))\<rparr>))"
  using assms
  by (simp add: create_document_stored collection_after_insert)

lemma is_published_stored: "is_published (stored n (MBlogPost b)) = BlogPost.published b"
  by (simp add: is_published_def matches_def stored_def)

lemma blog_out_stored: "blog_out parse_datetime (stored n (MBlogPost b)) = Inr (blog_view b)"
  by (cases "BlogPost.summary b"; cases "BlogPost.published_at b")
    (simp_all add: blog_out_def BlogOut_init_def dict_get_def dict_get_default_def as_str_def
      as_opt_str_def as_strs_def as_bool_def as_opt_datetime_def opt_str_def opt_datetime_def
      stored_def blog_view_def)

lemma examples_shape:
  "\<exists>ex1 ex2. examples now1 now2 = [ex1, ex2] \<and> BlogPost.published ex1 \<and> BlogPost.published ex2 \<and>
     BlogPost.slug ex1 = ''launching-pastel-fintech'' \<and> BlogPost.slug ex2 = ''simple-fair-pricing''"
  by (simp add: examples_def BlogPostSchema_def)

lemma list_blogs_connected:
  assumes "failure d = None" and "examples now1 now2 = [ex1, ex2]"
  shows "list_blogs parse_datetime (Some d) now1 now2 =
    (if filter is_published (collection d ''blogpost'') = []
     then
       (map_blogs parse_datetime (filter is_published
          (collection d ''blogpost'' @
             [stored (next_id d) (MBlogPost ex1), stored (Suc (next_id d)) (MBlogPost ex2)])),
        Some (d\<lparr>colls := AList.update ''blogpost''
              (collection d ''blogpost'' @
                 [stored (next_id d) (MBlogPost ex1), stored (Suc (next_id d)) (MBlogPost ex2)])
              (colls d),
            next_id := Suc (Suc (next_id d))\<rparr>))
     else (map_blogs parse_datetime (filter is_published (collection d ''blogpost'')), Some d))"
proof -
  have pub: "matches [(''published'', VBool True)] = is_published"
    by (rule ext) (simp add: is_published_def)
  show ?thesis
    using assms
    by (simp add: list_blogs_def get_documents_connected create_all_two collection_after_insert pub
        del: create_all.simps)
qed

lemma list_blogs_seeding:
  assumes "failure d = None" and "filter is_published (collection d ''blogpost'') = []"
    and "examples now1 now2 = [ex1, ex2]" and "BlogPost.published ex1" and "BlogPost.published ex2"
  shows "list_blogs parse_datetime (Some d) now1 now2 =
    (Inr [blog_view ex1, blog_view ex2],
     Some (d\<lparr>colls := AList.update ''blogpost''
              (collection d ''blogpost'' @
                 [stored (next_id d) (MBlogPost ex1), stored (Suc (next_id d)) (MBlogPost ex2)])
              (colls d),
            next_id := Suc (Suc (next_id d))\<rparr>))"
  using assms(2,4,5)
  by (simp add: list_blogs_connected [OF assms(1,3)] is_published_stored blog_out_stored)

text \<open>
  C4. On a connected store whose blogpost collection is empty, the listing returns two
  objects, with the slugs \<^verbatim>\<open>launching-pastel-fintech\<close> and \<^verbatim>\<open>simple-fair-pricing\<close>, and leaves two
  documents in the collection; a second listing on the resulting store returns the same
  two objects and leaves that store as it is.
\<close>

theorem list_blogs_seeds_once:
  assumes "failure d = None" and "collection d ''blogpost'' = []"
  shows "\<exists>out d'.
           list_blogs parse_datetime (Some d) now1 now2 = (Inr out, Some d') \<and>
           map BlogOut.slug out = [''launching-pastel-fintech'', ''simple-fair-pricing''] \<and>
           length (collection d' ''blogpost'') = 2 \<and>
           list_blogs parse_datetime (Some d') now3 now4 = (Inr out, Some d')"
proof -
  from examples_shape [of now1 now2] obtain ex1 ex2 where
    ex: "examples now1 now2 = [ex1, ex2]" "BlogPost.published ex1" "BlogPost.published ex2"
      "BlogPost.slug ex1 = ''launching-pastel-fintech''" "BlogPost.slug ex2 = ''simple-fair-pricing''"
    by blast
  from examples_shape [of now3 now4] obtain ex3 ex4 where ex': "examples now3 now4 = [ex3, ex4]"
    by blast
  let ?docs = "[stored (next_id d) (MBlogPost ex1), stored (Suc (next_id d)) (MBlogPost ex2)]"
  let ?d' = "d\<lparr>colls := AList.update ''blogpost'' ?docs (colls d), next_id := Suc (Suc (next_id d))\<rparr>"
  let ?out = "[blog_view ex1, blog_view ex2]"
  have first: "list_blogs parse_datetime (Some d) now1 now2 = (Inr ?out, Some ?d')"
    using assms(2) list_blogs_seeding [OF assms(1) _ ex(1,2,3)] by simp
  have conn: "failure ?d' = None"
    using assms(1) by simp
  have second: "list_blogs parse_datetime (Some ?d') now3 now4 = (Inr ?out, Some ?d')"
    using ex(2,3)
    by (simp add: list_blogs_connected [OF conn ex'] collection_after_insert is_published_stored
        blog_out_stored)
  have slugs: "map BlogOut.slug ?out = [''launching-pastel-fintech'', ''simple-fair-pricing'']"
    using ex(4,5) by (simp add: blog_view_def)
  have len: "length (collection ?d' ''blogpost'') = 2"
    by (simp add: collection_after_insert)
  show ?thesis
    apply (rule exI [of _ ?out])
    apply (rule exI [of _ ?d'])
    apply (intro conjI)
       apply (rule first)
      apply (rule slugs)
     apply (rule len)
    apply (rule second)
    done
qed

theorem list_blogs_seeds_once_witness:
  "failure empty_db = None \<and> collection empty_db ''blogpost'' = [] \<and>
   (\<exists>out d'.
      list_blogs sample_parse_datetime (Some empty_db) 5 6 = (Inr out, Some d') \<and>
      map BlogOut.slug out = [''launching-pastel-fintech'', ''simple-fair-pricing''] \<and>
      length (collection d' ''blogpost'') = 2 \<and>
      list_blogs sample_parse_datetime (Some d') 7 8 = (Inr out, Some d'))"
proof -
  have c: "failure empty_db = None"
    by (simp add: empty_db_def)
  have e: "collection empty_db ''blogpost'' = []"
    by (simp add: empty_db_def collection_def)
  from list_blogs_seeds_once [OF c e, of sample_parse_datetime 5 6 7 8] c e show ?thesis
    by blast
qed

lemma get_documents_matches:
  "get_documents db c f limit = Inr ps \<Longrightarrow> \<forall>p\<in>set ps. matches f p"
  by (auto simp add: get_documents_def Let_def split: option.splits dest: in_set_takeD)

lemma blog_out_published:
  assumes "matches [(''published'', VBool True)] p" and "blog_out parse_datetime p = Inr b"
  shows "BlogOut.published b"
  using assms
  by (auto simp add: matches_def blog_out_def BlogOut_init_def dict_get_default_def as_bool_def
      split: option.splits)

lemma map_blogs_published:
  "\<forall>p\<in>set ps. matches [(''published'', VBool True)] p \<Longrightarrow> map_blogs parse_datetime ps = Inr out \<Longrightarrow>
   \<forall>b\<in>set out. BlogOut.published b"
proof (induction ps arbitrary: out)
  case Nil
  then show ?case by simp
next
  case (Cons p ps)
  then show ?case
    by (auto split: sum.splits dest: blog_out_published)
qed

text \<open>
  C10. Whatever the store, every object of a listing that returns has \<open>published\<close> true:
  both the first query and the query after seeding filter on \<^verbatim>\<open>{published: True}\<close>, and
  the response object takes the field from the document.
\<close>

theorem list_blogs_only_published:
  assumes "list_blogs parse_datetime db now1 now2 = (Inr out, db')"
  shows "\<forall>b\<in>set out. BlogOut.published b"
  using assms
  by (auto simp add: list_blogs_def split: sum.splits if_splits prod.splits option.splits
      dest!: get_documents_matches dest: map_blogs_published)

theorem list_blogs_only_published_witness:
  "\<exists>out db'. list_blogs sample_parse_datetime (Some draft_db) 5 6 = (Inr out, db') \<and> length out = 2 \<and>
      list_all BlogOut.published out"
proof -
  from examples_shape [of 5 6] obtain ex1 ex2 where
    ex: "examples 5 6 = [ex1, ex2]" "BlogPost.published ex1" "BlogPost.published ex2"
    by blast
  have c: "failure draft_db = None"
    by (simp add: draft_db_def)
  have none: "filter is_published (collection draft_db ''blogpost'') = []"
    by (simp add: draft_db_def draft_doc_def collection_def is_published_def matches_def)
  note run = list_blogs_seeding [OF c none ex]
  from list_blogs_only_published [OF run] have "list_all BlogOut.published [blog_view ex1, blog_view ex2]"
    by simp
  with run show ?thesis
    by simp
qed

lemma is_published_iff: "is_published p \<longleftrightarrow> map_of p ''published'' = Some (VBool True)"
  by (simp add: is_published_def matches_def)

text \<open>
  C5, as the claim states it, fails: a store whose blogpost collection holds one document,
  with \<open>published\<close> false, is seeded all the same, and holds three documents afterwards.
\<close>

theorem list_blogs_unpublished_only_counterexample:
  "count_docs (Some draft_db) ''blogpost'' = 1 \<and>
   count_docs (snd (list_blogs sample_parse_datetime (Some draft_db) 5 6)) ''blogpost'' = 3 \<and>
   snd (list_blogs sample_parse_datetime (Some draft_db) 5 6) \<noteq> Some draft_db"
proof -
  from examples_shape [of 5 6] obtain ex1 ex2 where
    ex: "examples 5 6 = [ex1, ex2]" "BlogPost.published ex1" "BlogPost.published ex2"
    by blast
  have c: "failure draft_db = None"
    by (simp add: draft_db_def)
  have none: "filter is_published (collection draft_db ''blogpost'') = []"
    by (simp add: draft_db_def draft_doc_def collection_def is_published_def matches_def)
  have one: "collection draft_db ''blogpost'' = [draft_doc]"
    by (simp add: draft_db_def collection_def)
  note run = list_blogs_seeding [OF c none ex]
  have "count_docs (snd (list_blogs sample_parse_datetime (Some draft_db) 5 6)) ''blogpost'' = 3"
    by (simp add: run count_docs_def collection_after_insert one)
  moreover have "count_docs (Some draft_db) ''blogpost'' = 1"
    by (simp add: count_docs_def one)
  ultimately show ?thesis
    by auto
qed

text \<open>
  C5, amended. On a connected store, the listing leaves the store as it is when the
  blogpost collection holds a document with \<open>published\<close> true; when it holds none, the
  listing appends the two example posts to the blogpost collection and leaves every other
  collection as it is.
\<close>

theorem list_blogs_seeds_iff_none_published:
  assumes "failure d = None"
  shows "((\<exists>p\<in>set (collection d ''blogpost''). map_of p ''published'' = Some (VBool True)) \<longrightarrow>
            snd (list_blogs parse_datetime (Some d) now1 now2) = Some d) \<and>
         ((\<forall>p\<in>set (collection d ''blogpost''). map_of p ''published'' \<noteq> Some (VBool True)) \<longrightarrow>
            (\<exists>d'. snd (list_blogs parse_datetime (Some d) now1 now2) = Some d' \<and>
               collection d' ''blogpost'' =
                 collection d ''blogpost'' @
                   [stored (next_id d) (MBlogPost (examples now1 now2 ! 0)),
                    stored (Suc (next_id d)) (MBlogPost (examples now1 now2 ! 1))] \<and>
               (\<forall>c. c \<noteq> ''blogpost'' \<longrightarrow> collection d' c = collection d c)))"
proof -
  from examples_shape [of now1 now2] obtain ex1 ex2 where ex: "examples now1 now2 = [ex1, ex2]"
    by blast
  have empty_iff: "filter is_published (collection d ''blogpost'') = [] \<longleftrightarrow>
      (\<forall>p\<in>set (collection d ''blogpost''). map_of p ''published'' \<noteq> Some (VBool True))"
    by (simp add: filter_empty_conv is_published_iff)
  show ?thesis
    unfolding list_blogs_connected [OF assms ex] ex
    using empty_iff by (auto simp add: collection_after_insert)
qed

theorem list_blogs_seeds_iff_none_published_witness:
  "failure live_db = None \<and>
   (\<exists>p\<in>set (collection live_db ''blogpost''). map_of p ''published'' = Some (VBool True)) \<and>
   snd (list_blogs sample_parse_datetime (Some live_db) 5 6) = Some live_db \<and>
   failure draft_db = None \<and>
   collection draft_db ''blogpost'' = [draft_doc] \<and>
   map_of draft_doc ''published'' = Some (VBool False) \<and>
   (\<exists>d'. snd (list_blogs sample_parse_datetime (Some draft_db) 5 6) = Some d' \<and>
      collection d' ''blogpost'' =
        collection draft_db ''blogpost'' @
          [stored (next_id draft_db) (MBlogPost (examples 5 6 ! 0)),
           stored (Suc (next_id draft_db)) (MBlogPost (examples 5 6 ! 1))] \<and>
      (\<forall>c. c \<noteq> ''blogpost'' \<longrightarrow> collection d' c = collection draft_db c))"
proof -
  have c1: "failure live_db = None"
    by (simp add: live_db_def)
  have some: "\<exists>p\<in>set (collection live_db ''blogpost''). map_of p ''published'' = Some (VBool True)"
    by (simp add: live_db_def live_doc_def collection_def)
  have c2: "failure draft_db = None"
    by (simp add: draft_db_def)
  have one: "collection draft_db ''blogpost'' = [draft_doc]"
    by (simp add: draft_db_def collection_def)
  have unpublished: "map_of draft_doc ''published'' = Some (VBool False)"
    by (simp add: draft_doc_def)
  have none: "\<forall>p\<in>set (collection draft_db ''blogpost''). map_of p ''published'' \<noteq> Some (VBool True)"
    by (simp add: one unpublished)
  from list_blogs_seeds_iff_none_published [OF c1, of sample_parse_datetime 5 6]
    list_blogs_seeds_iff_none_published [OF c2, of sample_parse_datetime 5 6] c1 some c2 one unpublished none
  show ?thesis
    by blast
qed






section \<open>Contact\<close>

lemma contact_connected:
  assumes "failure d = None"
  shows "contact (Some d) payload =
    (Inr [(''ok'', VBool True),
          (''message'', VStr (''Thanks for reaching out! We'' @ [CHR 0x27] @ ''ll get back to you soon.'')),
          (''id'', VStr (digits (next_id d)))],
     Some (d\<lparr>colls := AList.update ''contactmessage''
             (collection d ''contactmessage'' @
                [stored (next_id d) (MContactMessage
                   \<lparr>ContactMessage.name = ContactRequest.name payload,
                    email = ContactRequest.email payload,
                    subject = ContactRequest.subject payload,
                    message = ContactRequest.message payload\<rparr>)])
             (colls d),
           next_id := Suc (next_id d)\<rparr>))"
  using assms by (simp add: contact_def create_document_stored)

text \<open>
  C7. On a connected store, a contact body that passes validation is answered with
  \<^verbatim>\<open>{ok: true, message, id}\<close>, the message being the fixed acknowledgment and \<open>id\<close>
  non-empty; the contactmessage collection gains exactly one document, the submitted
  fields under that identifier, whatever it held before, and every other collection is
  as it was.
\<close>

theorem contact_inserts_one:
  assumes "failure d = None" and "parse_ContactRequest validate_email b = Inr payload"
  shows "\<exists>doc_id d'.
           post_contact validate_email (Some d) b =
             (Inr [(''ok'', VBool True),
                   (''message'', VStr (''Thanks for reaching out! We'' @ [CHR 0x27] @ ''ll get back to you soon.'')),
                   (''id'', VStr doc_id)], Some d') \<and>
           doc_id \<noteq> [] \<and>
           collection d' ''contactmessage'' =
             collection d ''contactmessage'' @
               [[(''_id'', VObjectId doc_id), (''name'', VStr (ContactRequest.name payload)),
                 (''email'', VStr (ContactRequest.email payload)),
                 (''subject'', opt_str (ContactRequest.subject payload)),
                 (''message'', VStr (ContactRequest.message payload))]] \<and>
           (\<forall>c. c \<noteq> ''contactmessage'' \<longrightarrow> collection d' c = collection d c)"
  using assms
  by (simp add: post_contact_def contact_connected collection_after_insert digits_nonempty stored_def)

theorem contact_inserts_one_witness:
  "failure ada_db = None \<and>
   parse_ContactRequest sample_validate_email hello_body =
     Inr \<lparr>ContactRequest.name = ''Ada'', email = ''ada@x.com'', subject = None, message = ''Hi''\<rparr> \<and>
   (\<exists>doc_id d'.
      post_contact sample_validate_email (Some ada_db) hello_body =
        (Inr [(''ok'', VBool True),
              (''message'', VStr (''Thanks for reaching out! We'' @ [CHR 0x27] @ ''ll get back to you soon.'')),
              (''id'', VStr doc_id)], Some d') \<and>
      doc_id \<noteq> [] \<and>
      collection d' ''contactmessage'' =
        [[(''_id'', VObjectId doc_id), (''name'', VStr ''Ada''), (''email'', VStr ''ada@x.com''),
          (''subject'', VNull), (''message'', VStr ''Hi'')]] \<and>
      collection d' ''user'' = [ada_doc])"
proof -
  have c: "failure ada_db = None"
    by (simp add: ada_db_def)
  have p: "parse_ContactRequest sample_validate_email hello_body =
     Inr \<lparr>ContactRequest.name = ''Ada'', email = ''ada@x.com'', subject = None, message = ''Hi''\<rparr>"
    by (simp add: parse_ContactRequest_def hello_body_def str_field_def email_field_def
        opt_str_field_def sample_validate_email_def)
  have before: "collection ada_db ''contactmessage'' = []" "collection ada_db ''user'' = [ada_doc]"
    by (simp_all add: ada_db_def collection_def)
  from contact_inserts_one [OF c p] obtain doc_id d' where
    r: "post_contact sample_validate_email (Some ada_db) hello_body =
             (Inr [(''ok'', VBool True),
                   (''message'', VStr (''Thanks for reaching out! We'' @ [CHR 0x27] @ ''ll get back to you soon.'')),
                   (''id'', VStr doc_id)], Some d')"
      "doc_id \<noteq> []"
      "collection d' ''contactmessage'' =
             collection ada_db ''contactmessage'' @
               [[(''_id'', VObjectId doc_id), (''name'', VStr ''Ada''), (''email'', VStr ''ada@x.com''),
                 (''subject'', opt_str None), (''message'', VStr ''Hi'')]]"
      "\<forall>c. c \<noteq> ''contactmessage'' \<longrightarrow> collection d' c = collection ada_db c"
    by auto
  from r(4) have "collection d' ''user'' = collection ada_db ''user''"
    by simp
  with r before c p show ?thesis
    by (auto simp add: opt_str_def)
qed

section \<open>Request validation\<close>

lemma parse_ContactRequest_error:
  assumes "parse_ContactRequest validate_email b = Inl e"
  shows "\<exists>errs. e = RequestValidationError errs \<and> errs \<noteq> []"
  using assms
  by (auto simp add: parse_ContactRequest_def Let_def field_error_def split: sum.splits)

lemma parse_RegisterRequest_error:
  assumes "parse_RegisterRequest validate_email b = Inl e"
  shows "\<exists>errs. e = RequestValidationError errs \<and> errs \<noteq> []"
  using assms
  by (auto simp add: parse_RegisterRequest_def Let_def field_error_def split: sum.splits)

lemma parse_LoginRequest_error:
  assumes "parse_LoginRequest validate_email b = Inl e"
  shows "\<exists>errs. e = RequestValidationError errs \<and> errs \<noteq> []"
  using assms
  by (auto simp add: parse_LoginRequest_def Let_def field_error_def split: sum.splits)

lemma missing_message:
  assumes "map_of b ''message'' = None"
  shows "\<exists>errs. parse_ContactRequest validate_email b = Inl (RequestValidationError errs) \<and>
           (''message'', ''missing'') \<in> set errs"
  using assms
  by (auto simp add: parse_ContactRequest_def Let_def field_error_def str_field_def split: sum.splits)

lemma malformed_email:
  assumes "map_of b ''email'' = Some (JStr s)" and "validate_email s = None"
  shows "\<exists>errs. parse_ContactRequest validate_email b = Inl (RequestValidationError errs) \<and>
           (''email'', ''value_error'') \<in> set errs"
  using assms
  by (auto simp add: parse_ContactRequest_def Let_def field_error_def email_field_def split: sum.splits)

text \<open>
  C8. A body that fails the validation of its request model is answered with the
  validation error, a non-empty list of field errors, and the store is returned as it
  was, for the register, login and contact routes and whatever the store is. In
  particular a contact body without \<open>message\<close>, or with an \<open>email\<close> that the address
  check refuses, is rejected with an error naming that field and creates no document.
\<close>

theorem invalid_body_rejected_before_persistence:
  "(parse_RegisterRequest validate_email b = Inl e \<longrightarrow>
      post_register validate_email H db b = (Inl e, db) \<and> (\<exists>errs. e = RequestValidationError errs \<and> errs \<noteq> [])) \<and>
   (parse_LoginRequest validate_email b = Inl e \<longrightarrow>
      post_login validate_email H db b = (Inl e, db) \<and> (\<exists>errs. e = RequestValidationError errs \<and> errs \<noteq> [])) \<and>
   (parse_ContactRequest validate_email b = Inl e \<longrightarrow>
      post_contact validate_email db b = (Inl e, db) \<and> (\<exists>errs. e = RequestValidationError errs \<and> errs \<noteq> [])) \<and>
   (map_of b ''message'' = None \<longrightarrow>
      (\<exists>errs. post_contact validate_email db b = (Inl (RequestValidationError errs), db) \<and>
         (''message'', ''missing'') \<in> set errs)) \<and>
   (map_of b ''email'' = Some (JStr s) \<and> validate_email s = None \<longrightarrow>
      (\<exists>errs. post_contact validate_email db b = (Inl (RequestValidationError errs), db) \<and>
         (''email'', ''value_error'') \<in> set errs))"
proof (intro conjI impI)
  assume "parse_RegisterRequest validate_email b = Inl e"
  then show "post_register validate_email H db b = (Inl e, db)"
    by (simp add: post_register_def)
next
  assume "parse_RegisterRequest validate_email b = Inl e"
  then show "\<exists>errs. e = RequestValidationError errs \<and> errs \<noteq> []"
    by (rule parse_RegisterRequest_error)
next
  assume "parse_LoginRequest validate_email b = Inl e"
  then show "post_login validate_email H db b = (Inl e, db)"
    by (simp add: post_login_def)
next
  assume "parse_LoginRequest validate_email b = Inl e"
  then show "\<exists>errs. e = RequestValidationError errs \<and> errs \<noteq> []"
    by (rule parse_LoginRequest_error)
next
  assume "parse_ContactRequest validate_email b = Inl e"
  then show "post_contact validate_email db b = (Inl e, db)"
    by (simp add: post_contact_def)
next
  assume "parse_ContactRequest validate_email b = Inl e"
  then show "\<exists>errs. e = RequestValidationError errs \<and> errs \<noteq> []"
    by (rule parse_ContactRequest_error)
next
  assume "map_of b ''message'' = None"
  from missing_message [OF this, of validate_email]
  show "\<exists>errs. post_contact validate_email db b = (Inl (RequestValidationError errs), db) \<and>
         (''message'', ''missing'') \<in> set errs"
    by (auto simp add: post_contact_def)
next
  assume "map_of b ''email'' = Some (JStr s) \<and> validate_email s = None"
  then have "map_of b ''email'' = Some (JStr s)" and "validate_email s = None"
    by simp_all
  from malformed_email [of b s validate_email, OF this]
  show "\<exists>errs. post_contact validate_email db b = (Inl (RequestValidationError errs), db) \<and>
         (''email'', ''value_error'') \<in> set errs"
    by (auto simp add: post_contact_def)
qed

theorem invalid_body_rejected_before_persistence_witness:
  "parse_RegisterRequest sample_validate_email bad_body
     = Inl (RequestValidationError [(''email'', ''value_error'')]) \<and>
   post_register sample_validate_email sample_digest (Some ada_db) bad_body
     = (Inl (RequestValidationError [(''email'', ''value_error'')]), Some ada_db) \<and>
   parse_LoginRequest sample_validate_email bad_body
     = Inl (RequestValidationError [(''email'', ''value_error'')]) \<and>
   post_login sample_validate_email sample_digest (Some ada_db) bad_body
     = (Inl (RequestValidationError [(''email'', ''value_error'')]), Some ada_db) \<and>
   parse_ContactRequest sample_validate_email bad_body
     = Inl (RequestValidationError [(''email'', ''value_error''), (''message'', ''missing'')]) \<and>
   post_contact sample_validate_email (Some ada_db) bad_body
     = (Inl (RequestValidationError [(''email'', ''value_error''), (''message'', ''missing'')]),
        Some ada_db) \<and>
   map_of bad_body ''message'' = None \<and>
   map_of bad_body ''email'' = Some (JStr ''nobody'') \<and>
   sample_validate_email ''nobody'' = None"
proof -
  have r: "parse_RegisterRequest sample_validate_email bad_body
             = Inl (RequestValidationError [(''email'', ''value_error'')])"
    by (simp add: parse_RegisterRequest_def bad_body_def str_field_def email_field_def
        field_error_def sample_validate_email_def)
  have l: "parse_LoginRequest sample_validate_email bad_body
             = Inl (RequestValidationError [(''email'', ''value_error'')])"
    by (simp add: parse_LoginRequest_def bad_body_def str_field_def email_field_def
        field_error_def sample_validate_email_def)
  have c: "parse_ContactRequest sample_validate_email bad_body
             = Inl (RequestValidationError [(''email'', ''value_error''), (''message'', ''missing'')])"
    by (simp add: parse_ContactRequest_def bad_body_def str_field_def email_field_def
        opt_str_field_def field_error_def sample_validate_email_def)
  have m: "map_of bad_body ''message'' = None"
    by (simp add: bad_body_def)
  have e: "map_of bad_body ''email'' = Some (JStr ''nobody'')"
    by (simp add: bad_body_def)
  have v: "sample_validate_email ''nobody'' = None"
    by (simp add: sample_validate_email_def)
  from invalid_body_rejected_before_persistence
         [of sample_validate_email bad_body
             "RequestValidationError [(''email'', ''value_error'')]" sample_digest "Some ada_db"]
       invalid_body_rejected_before_persistence
         [of sample_validate_email bad_body
             "RequestValidationError [(''email'', ''value_error''), (''message'', ''missing'')]"
             sample_digest "Some ada_db"]
       r l c m e v
  show ?thesis
    by simp
qed

section \<open>Diagnostics\<close>







end
